theory Spec2Isabelle
  imports Main
begin

section \<open>Data model\<close>

text \<open>
  The server (\<^verbatim>\<open>src/server/server.js\<close>) keeps all of its state in one MongoDB database:
  the collection behind the mongoose model \<^verbatim>\<open>User\<close>, the collection behind the model
  \<^verbatim>\<open>File\<close>, and the GridFS buckets that hold the uploaded bytes. Documents are records,
  collections are lists in insertion order, an ObjectId is a natural number.
\<close>

type_synonym objectId = nat

text \<open>
  The four fields that \<^verbatim>\<open>/register\<close> reads from the request body, that a user document
  stores and that a token carries: \<^verbatim>\<open>const { name, email, password, createdAt } = req.body\<close>.
\<close>

record identity =
  name :: string
  email :: string
  password :: string
  createdAt :: string

text \<open>
  Modelled from the spec: \<^verbatim>\<open>models/User.js\<close> (the schema of the model \<^verbatim>\<open>User\<close>) is not among
  the sources. The spec gives a user an identifier, a name, an email, a password hash, a
  creation timestamp and an ordered list of owned filenames; the handlers read and write
  exactly these (\<^verbatim>\<open>_id\<close>, \<^verbatim>\<open>name\<close>, \<^verbatim>\<open>email\<close>, \<^verbatim>\<open>password\<close>, \<^verbatim>\<open>createdAt\<close>, \<^verbatim>\<open>files\<close>).
  The field \<open>uid\<close> is the document's \<^verbatim>\<open>_id\<close>.
\<close>

record user = identity +
  uid :: objectId
  files :: "string list"

text \<open>The payload that \<^verbatim>\<open>jwt.sign\<close> receives in \<^verbatim>\<open>/register\<close> and \<^verbatim>\<open>/login\<close>.\<close>

record claims = identity +
  userId :: objectId

text \<open>
  \<^verbatim>\<open>req.file\<close> as the upload handler destructures it:
  \<^verbatim>\<open>const { filename, originalname, contentType, size } = req.file\<close>.
\<close>

record file_info =
  filename :: string
  originalname :: string
  contentType :: string
  size' :: nat

text \<open>
  A file part of a multipart request as \<^verbatim>\<open>multer\<close> sees it: the name of the form field it
  came under, the filename the client gave (\<^verbatim>\<open>file.originalname\<close> in the source, here
  \<open>part_originalname\<close>), the content type and the bytes.
\<close>

record part =
  fieldname :: string
  part_originalname :: string
  mimetype :: string
  data :: "nat list"

text \<open>
  \<^verbatim>\<open>fileSchema\<close>: the four fields above and \<^verbatim>\<open>owner\<close>, all of them \<^verbatim>\<open>required: true\<close>, which
  the record reflects by having no optional field. \<open>fid\<close> is the document's \<^verbatim>\<open>_id\<close>.
\<close>

record file_doc = file_info +
  fid :: objectId
  owner :: objectId

text \<open>A file stored in GridFS: its id, the bucket (\<^verbatim>\<open>root\<close>) it lives in, and what was stored.\<close>

record blob =
  blob_id :: objectId
  root :: string
  blob_filename :: string
  blob_contentType :: string
  blob_data :: "nat list"

record db =
  userDocs :: "user list"
  fileDocs :: "file_doc list"
  gridfs :: "blob list"
  next_oid :: objectId

definition db_init :: db where
  "db_init = \<lparr>userDocs = [], fileDocs = [], gridfs = [], next_oid = 0\<rparr>"

section \<open>Responses\<close>

text \<open>The JSON bodies the handlers send, one constructor for each shape of object.\<close>

datatype body =
    Error string                  \<comment> \<open>\<^verbatim>\<open>{ error }\<close>\<close>
  | Msg string                    \<comment> \<open>\<^verbatim>\<open>{ msg }\<close>\<close>
  | Message string                \<comment> \<open>\<^verbatim>\<open>{ message }\<close>\<close>
  | MsgUserToken string user string  \<comment> \<open>\<^verbatim>\<open>{ msg, user, token }\<close>\<close>
  | MsgNewFile string file_doc        \<comment> \<open>\<^verbatim>\<open>{ msg, newFile }\<close>\<close>
  | FileBody blob                 \<comment> \<open>\<^verbatim>\<open>{ file }\<close>\<close>

record response =
  status :: nat
  body :: body

text \<open>
  What a request ends in: a response written by the handler, or \<open>Unhandled\<close> when a
  call the handler does not guard fails (a rejected promise in an \<^verbatim>\<open>async\<close> handler
  without \<^verbatim>\<open>try\<close>, or an error the upload middleware passes on): then the handler
  itself writes nothing.
\<close>

datatype outcome = Sent response | Unhandled

text \<open>The error responses of the source under the names the specification gives them.\<close>

definition Unauthorized :: response where
  "Unauthorized = \<lparr>status = 401, body = Error ''Unauthorized''\<rparr>"

definition InvalidToken :: response where
  "InvalidToken = \<lparr>status = 401, body = Error ''Invalid token''\<rparr>"

definition NoFilePresent :: response where
  "NoFilePresent = \<lparr>status = 400, body = Error ''No file uploaded''\<rparr>"

definition NotFound :: response where
  "NotFound = \<lparr>status = 404, body = Error ''File not found''\<rparr>"

definition RetrieveError :: response where
  "RetrieveError = \<lparr>status = 500, body = Error ''Error retrieving the file''\<rparr>"

definition StorageError :: response where
  "StorageError = \<lparr>status = 500, body = Error ''Error deleting the file''\<rparr>"

definition DuplicateUser :: response where
  "DuplicateUser = \<lparr>status = 400, body = Error ''User already exists''\<rparr>"

definition UserNotFound :: response where
  "UserNotFound = \<lparr>status = 400, body = Msg (''User doesn'' @ [CHR 0x27] @ ''t exists!!'')\<rparr>"

definition InvalidCredentials :: response where
  "InvalidCredentials = \<lparr>status = 400, body = Msg ''Invalid email or password''\<rparr>"

definition ServerError :: response where
  "ServerError = \<lparr>status = 500, body = Msg ''Server error''\<rparr>"

section \<open>The environment of the process\<close>

text \<open>
  The libraries \<^verbatim>\<open>jsonwebtoken\<close> and \<^verbatim>\<open>bcrypt\<close> are not part of the repository: their
  functions are parameters. \<^verbatim>\<open>jwt.sign\<close> reads the clock (it stamps the payload) and
  \<^verbatim>\<open>bcrypt.hash\<close> draws a salt, so both take that value as an argument; \<^verbatim>\<open>jwt.verify\<close>
  throws or returns the decoded payload, here \<open>None\<close> or \<open>Some\<close>. \<open>bucketName\<close> is
  the GridFS bucket that \<^verbatim>\<open>GridFsStorage\<close> writes to when, as here, it is given none.
\<close>

record env =
  JWT_SECRET :: string
  jwt_sign :: "nat \<Rightarrow> claims \<Rightarrow> string \<Rightarrow> string"
  jwt_verify :: "string \<Rightarrow> string \<Rightarrow> claims option"
  bcrypt_hash :: "string \<Rightarrow> string \<Rightarrow> nat \<Rightarrow> string"
  bcrypt_compare :: "string \<Rightarrow> string \<Rightarrow> bool"
  bucketName :: string

text \<open>
  What a single request meets outside the process: the first database or storage call
  that fails, if any (an exception leaves the handler at that call, so later calls do not
  matter), the clock, and the salt that \<^verbatim>\<open>bcrypt\<close> draws.
\<close>

datatype fault = NoFault | FindOneFails | SaveFails | UpdateFails | StorageFails

record ambient =
  fault :: fault
  now :: nat
  salt :: string

section \<open>Data access\<close>

text \<open>\<^verbatim>\<open>User.findOne({ email })\<close>: the first user document with that email, or \<^verbatim>\<open>null\<close>.\<close>

definition User_findOne :: "db \<Rightarrow> string \<Rightarrow> user option" where
  "User_findOne d e = find (\<lambda>u. email u = e) (userDocs d)"

text \<open>\<^verbatim>\<open>newUser.save()\<close>: insert the document.\<close>

definition User_save :: "db \<Rightarrow> user \<Rightarrow> db" where
  "User_save d u = d\<lparr>userDocs := userDocs d @ [u]\<rparr>"

text \<open>
  \<^verbatim>\<open>newFile.save()\<close> validates the document against \<^verbatim>\<open>fileSchema\<close> before it inserts it.
  For a \<^verbatim>\<open>String\<close> path, \<^verbatim>\<open>required: true\<close> also refuses the empty string; \<^verbatim>\<open>size\<close> and
  \<^verbatim>\<open>owner\<close> only have to be there, which the record's type says. A refused document makes
  \<^verbatim>\<open>save()\<close> reject, here \<open>None\<close>.
\<close>

definition File_validate :: "file_doc \<Rightarrow> bool" where
  "File_validate f = (filename f \<noteq> [] \<and> originalname f \<noteq> [] \<and> contentType f \<noteq> [])"

definition File_save :: "db \<Rightarrow> file_doc \<Rightarrow> db option" where
  "File_save d f =
     (if File_validate f then Some (d\<lparr>fileDocs := fileDocs d @ [f]\<rparr>) else None)"

text \<open>
  \<^verbatim>\<open>User.findByIdAndUpdate(id, { $push: { files: filename } })\<close>: the first document with
  that \<^verbatim>\<open>_id\<close> gets the filename appended to \<^verbatim>\<open>files\<close>; without such a document nothing
  changes.
\<close>

fun push_file :: "objectId \<Rightarrow> string \<Rightarrow> user list \<Rightarrow> user list" where
  "push_file i fn [] = []"
| "push_file i fn (u # us) =
     (if uid u = i then u\<lparr>files := files u @ [fn]\<rparr> # us else u # push_file i fn us)"

definition User_findByIdAndUpdate_push :: "db \<Rightarrow> objectId \<Rightarrow> string \<Rightarrow> db" where
  "User_findByIdAndUpdate_push d i fn = d\<lparr>userDocs := push_file i fn (userDocs d)\<rparr>"

text \<open>
  A value that a query compares with a document's \<^verbatim>\<open>_id\<close>: an ObjectId or a string. The two
  kinds are never equal to each other.
\<close>

datatype bson = ObjectId objectId | Str string

text \<open>
  \<^verbatim>\<open>gfs.collection('files')\<close> followed by \<^verbatim>\<open>gfs.files.findOne({ _id: ... })\<close>: a lookup in the
  bucket \<^verbatim>\<open>files\<close> for a file whose \<^verbatim>\<open>_id\<close>, an ObjectId, equals the value of the query.
  \<^verbatim>\<open>gfs.remove({ _id, root: 'uploads' })\<close>: removal from the bucket given as \<^verbatim>\<open>root\<close>.
\<close>

definition gfs_files_findOne :: "db \<Rightarrow> bson \<Rightarrow> blob option" where
  "gfs_files_findOne d q =
     find (\<lambda>b. root b = ''files'' \<and> ObjectId (blob_id b) = q) (gridfs d)"

definition gfs_remove :: "db \<Rightarrow> objectId \<Rightarrow> string \<Rightarrow> db" where
  "gfs_remove d i r = d\<lparr>gridfs := filter (\<lambda>b. \<not> (root b = r \<and> blob_id b = i)) (gridfs d)\<rparr>"

section \<open>Requests\<close>

text \<open>
  A request to \<^verbatim>\<open>/upload\<close> as it arrives: the header \<^verbatim>\<open>token\<close> and the file part of the
  multipart body, either of which may be missing. The middlewares add \<^verbatim>\<open>req.user\<close> and
  \<^verbatim>\<open>req.file\<close>.
\<close>

record upload_request =
  token :: "string option"
  file_part :: "part option"

record upload_req = upload_request +
  req_user :: "claims option"
  req_file :: "file_info option"

type_synonym handler = "upload_req \<Rightarrow> db \<Rightarrow> db \<times> outcome"

section \<open>Token verification\<close>

text \<open>\<^verbatim>\<open>!token\<close> holds of a missing header and of an empty one.\<close>

definition falsy :: "string option \<Rightarrow> bool" where
  "falsy t = (case t of None \<Rightarrow> True | Some s \<Rightarrow> s = [])"

text \<open>
  \<^verbatim>\<open>validateToken(req, res, next)\<close>: the middleware either answers itself or calls
  \<^verbatim>\<open>next()\<close>, here the handler \<open>nxt\<close>, on the request with \<^verbatim>\<open>req.user\<close> set.
\<close>

definition validateToken :: "env \<Rightarrow> upload_req \<Rightarrow> db \<Rightarrow> handler \<Rightarrow> db \<times> outcome" where
  "validateToken env req d nxt =
     (if falsy (token req) then (d, Sent Unauthorized)
      else case jwt_verify env (the (token req)) (JWT_SECRET env) of
             Some decoded \<Rightarrow> nxt (req\<lparr>req_user := Some decoded\<rparr>) d
           | None \<Rightarrow> (d, Sent InvalidToken))"

section \<open>Upload\<close>

text \<open>The \<^verbatim>\<open>file\<close> option of \<^verbatim>\<open>GridFsStorage\<close>: \<^verbatim>\<open>(req, file) => { return { filename: file.originalname } }\<close>.\<close>

definition storage_file :: "upload_req \<Rightarrow> part \<Rightarrow> string" where
  "storage_file req file = part_originalname file"

text \<open>
  \<^verbatim>\<open>upload.single('file')\<close>, that is \<^verbatim>\<open>multer\<close> over \<^verbatim>\<open>GridFsStorage\<close>. Without a file part
  in the request it calls \<^verbatim>\<open>next()\<close> and leaves \<^verbatim>\<open>req.file\<close> undefined, and so it does with
  a part whose filename is empty, which it takes for no file. A file under another field
  name than \<^verbatim>\<open>file\<close> is an error (``Unexpected field'') that goes to \<^verbatim>\<open>next(err)\<close>, past the
  handler, and so does a storage error. Otherwise it writes the bytes to GridFS under the
  name \<open>storage_file\<close> returns and describes the result in \<^verbatim>\<open>req.file\<close>.
\<close>

definition upload_single :: "env \<Rightarrow> ambient \<Rightarrow> upload_req \<Rightarrow> db \<Rightarrow> handler \<Rightarrow> db \<times> outcome" where
  "upload_single env amb req d nxt =
     (case file_part req of
        None \<Rightarrow> nxt req d
      | Some p \<Rightarrow>
          if part_originalname p = [] then nxt req d
          else if fieldname p \<noteq> ''file'' then (d, Unhandled)
          else if fault amb = StorageFails then (d, Unhandled)
          else
            let fn = storage_file req p;
                b = \<lparr>blob_id = next_oid d, root = bucketName env, blob_filename = fn,
                      blob_contentType = mimetype p, blob_data = data p\<rparr>;
                d1 = d\<lparr>gridfs := gridfs d @ [b], next_oid := Suc (next_oid d)\<rparr>
            in nxt (req\<lparr>req_file := Some \<lparr>filename = fn, originalname = part_originalname p,
                                             contentType = mimetype p, size' = length (data p)\<rparr>\<rparr>) d1)"

text \<open>
  The handler of \<^verbatim>\<open>app.post('/upload', ...)\<close>. \<^verbatim>\<open>new File(...)\<close> draws the document's
  \<^verbatim>\<open>_id\<close>; the two awaited calls are not guarded by \<^verbatim>\<open>try\<close>, so a failing call and a
  document that \<^verbatim>\<open>save()\<close> refuses both leave the handler without an answer. Reading
  \<^verbatim>\<open>req.user.userId\<close> without \<^verbatim>\<open>req.user\<close> throws.
\<close>

definition upload_handler :: "ambient \<Rightarrow> upload_req \<Rightarrow> db \<Rightarrow> db \<times> outcome" where
  "upload_handler amb req d =
     (case req_file req of
        None \<Rightarrow> (d, Sent NoFilePresent)
      | Some f \<Rightarrow>
          (case req_user req of
             None \<Rightarrow> (d, Unhandled)
           | Some u \<Rightarrow>
               let owner = userId u;
                   newFile = \<lparr>filename = filename f, originalname = originalname f,
                              contentType = contentType f, size' = size' f,
                              fid = next_oid d, owner = owner\<rparr>;
                   d1 = d\<lparr>next_oid := Suc (next_oid d)\<rparr>
               in if fault amb = SaveFails then (d1, Unhandled)
                  else
                    (case File_save d1 newFile of
                       None \<Rightarrow> (d1, Unhandled)
                     | Some d2 \<Rightarrow>
                         if fault amb = UpdateFails then (d2, Unhandled)
                         else (User_findByIdAndUpdate_push d2 (userId u) (filename f),
                               Sent \<lparr>status = 201,
                                     body = MsgNewFile ''File saved in database'' newFile\<rparr>))))"

text \<open>\<^verbatim>\<open>app.post('/upload', validateToken, upload.single('file'), async (req, res) => ...)\<close>.\<close>

definition upload :: "env \<Rightarrow> ambient \<Rightarrow> upload_request \<Rightarrow> db \<Rightarrow> db \<times> outcome" where
  "upload env amb rq d =
     validateToken env \<lparr>token = token rq, file_part = file_part rq,
                        req_user = None, req_file = None\<rparr> d
       (\<lambda>req d'. upload_single env amb req d' (upload_handler amb))"

section \<open>Files by id\<close>

text \<open>
  Both handlers work through \<^verbatim>\<open>gfs\<close>, which is set once the database connection is open;
  the model begins there. \<^verbatim>\<open>app.get('/files/:id', ...)\<close> queries with
  \<^verbatim>\<open>{ _id: req.params.id }\<close>: the path parameter as it is, a string.
\<close>

definition getFile :: "ambient \<Rightarrow> string \<Rightarrow> db \<Rightarrow> db \<times> outcome" where
  "getFile amb i d =
     (if fault amb = FindOneFails then (d, Sent RetrieveError)
      else case gfs_files_findOne d (Str i) of
             None \<Rightarrow> (d, Sent NotFound)
           | Some f \<Rightarrow> (d, Sent \<lparr>status = 200, body = FileBody f\<rparr>))"

text \<open>
  \<^verbatim>\<open>app.delete('/files/:id', ...)\<close>: the callback of \<^verbatim>\<open>gfs.remove\<close> answers 500 on \<^verbatim>\<open>err\<close> and
  200 otherwise. Unlike the query of the \<^verbatim>\<open>GET\<close> handler, \<^verbatim>\<open>gfs.remove\<close> turns the id it is
  given into an ObjectId before it deletes; \<open>i\<close> is that ObjectId.
\<close>

definition deleteFile :: "ambient \<Rightarrow> objectId \<Rightarrow> db \<Rightarrow> db \<times> outcome" where
  "deleteFile amb i d =
     (if fault amb = StorageFails then (d, Sent StorageError)
      else (gfs_remove d i ''uploads'',
            Sent \<lparr>status = 200, body = Message ''File deleted successfully''\<rparr>))"

section \<open>Registration and login\<close>

text \<open>The object given to \<^verbatim>\<open>jwt.sign\<close>, the same in both handlers.\<close>

definition claims_of :: "user \<Rightarrow> claims" where
  "claims_of u = \<lparr>name = name u, email = email u, password = password u,
                  createdAt = createdAt u, userId = uid u\<rparr>"

text \<open>
  \<^verbatim>\<open>app.post('/register', ...)\<close>: no call is guarded by \<^verbatim>\<open>try\<close>. \<^verbatim>\<open>new User(...)\<close> draws
  the \<^verbatim>\<open>_id\<close>; \<^verbatim>\<open>files\<close> starts empty.
\<close>

definition register :: "env \<Rightarrow> ambient \<Rightarrow> identity \<Rightarrow> db \<Rightarrow> db \<times> outcome" where
  "register env amb req d =
     (if fault amb = FindOneFails then (d, Unhandled)
      else case User_findOne d (email req) of
             Some existingUser \<Rightarrow> (d, Sent DuplicateUser)
           | None \<Rightarrow>
               let hashedPassword = bcrypt_hash env (salt amb) (password req) 10;
                   newUser = \<lparr>name = name req, email = email req, password = hashedPassword,
                              createdAt = createdAt req, uid = next_oid d, files = []\<rparr>;
                   d1 = d\<lparr>next_oid := Suc (next_oid d)\<rparr>
               in if fault amb = SaveFails then (d1, Unhandled)
                  else
                    let d2 = User_save d1 newUser;
                        token = jwt_sign env (now amb) (claims_of newUser) (JWT_SECRET env)
                    in (d2, Sent \<lparr>status = 201,
                                  body = MsgUserToken ''User registered successfully!!'' newUser token\<rparr>))"

text \<open>\<^verbatim>\<open>app.post('/login', ...)\<close>: the whole body is inside \<^verbatim>\<open>try\<close>, and \<^verbatim>\<open>catch\<close> answers 500.\<close>

definition login :: "env \<Rightarrow> ambient \<Rightarrow> string \<Rightarrow> string \<Rightarrow> db \<Rightarrow> db \<times> outcome" where
  "login env amb email' password' d =
     (if fault amb = FindOneFails then (d, Sent ServerError)
      else case User_findOne d email' of
             None \<Rightarrow> (d, Sent UserNotFound)
           | Some user \<Rightarrow>
               let isPasswordValid = bcrypt_compare env password' (password user)
               in if \<not> isPasswordValid then (d, Sent InvalidCredentials)
                  else
                    let token = jwt_sign env (now amb) (claims_of user) (JWT_SECRET env)
                    in (d, Sent \<lparr>status = 200,
                                 body = MsgUserToken ''User logged in successfully!'' user token\<rparr>))"

section \<open>Runs of the server\<close>

text \<open>
  The five routes that touch the database. Token verification is no route of its own: it
  runs as the first middleware of \<^verbatim>\<open>/upload\<close>.
\<close>

datatype request =
    Register identity
  | Login string string
  | Upload upload_request
  | GetFile string
  | DeleteFile objectId

fun handle :: "env \<Rightarrow> ambient \<Rightarrow> request \<Rightarrow> db \<Rightarrow> db \<times> outcome" where
  "handle env amb (Register b) d = register env amb b d"
| "handle env amb (Login e p) d = login env amb e p d"
| "handle env amb (Upload rq) d = upload env amb rq d"
| "handle env amb (GetFile i) d = getFile amb i d"
| "handle env amb (DeleteFile i) d = deleteFile amb i d"

text \<open>The token a response hands to the client, if it carries one.\<close>

fun token_of :: "outcome \<Rightarrow> string list" where
  "token_of (Sent r) = (case body r of MsgUserToken m u t \<Rightarrow> [t] | _ \<Rightarrow> [])"
| "token_of Unhandled = []"

text \<open>
  A run is a list of requests, each with what it meets outside the process. It is
  followed on a pair: the database, and the tokens handed out so far.
\<close>

fun run :: "env \<Rightarrow> (ambient \<times> request) list \<Rightarrow> db \<times> string list \<Rightarrow> db \<times> string list" where
  "run env [] w = w"
| "run env (ev # evs) w =
     (let r = handle env (fst ev) (snd ev) (fst w)
      in run env evs (fst r, snd w @ token_of (snd r)))"

text \<open>
  Signatures cannot be forged: in an \<open>unforged\<close> run, a token that a request presents
  and that \<^verbatim>\<open>jwt.verify\<close> accepts is one of the tokens handed out earlier in the run.
\<close>

definition presented_ok :: "env \<Rightarrow> request \<Rightarrow> string list \<Rightarrow> bool" where
  "presented_ok env rq toks =
     (case rq of
        Upload u \<Rightarrow>
          (case token u of
             None \<Rightarrow> True
           | Some t \<Rightarrow> jwt_verify env t (JWT_SECRET env) = None \<or> t \<in> set toks)
      | _ \<Rightarrow> True)"

fun unforged :: "env \<Rightarrow> (ambient \<times> request) list \<Rightarrow> db \<times> string list \<Rightarrow> bool" where
  "unforged env [] w = True"
| "unforged env (ev # evs) w =
     (presented_ok env (snd ev) (snd w) \<and>
      (let r = handle env (fst ev) (snd ev) (fst w)
       in unforged env evs (fst r, snd w @ token_of (snd r))))"

text \<open>The invariant of the model \<^verbatim>\<open>File\<close>: every owner is the \<^verbatim>\<open>_id\<close> of a user document.\<close>

definition owner_exists :: "db \<Rightarrow> bool" where
  "owner_exists d = (\<forall>f \<in> set (fileDocs d). \<exists>u \<in> set (userDocs d). uid u = owner f)"

text \<open>
  What the tokens handed out so far have in common: each was signed here, under
  \<^verbatim>\<open>JWT_SECRET\<close>, for the \<^verbatim>\<open>_id\<close> of a user document.
\<close>

definition tokens_sound :: "env \<Rightarrow> db \<Rightarrow> string list \<Rightarrow> bool" where
  "tokens_sound env d toks =
     (\<forall>t \<in> set toks. \<exists>iat c. t = jwt_sign env iat c (JWT_SECRET env) \<and>
                              userId c \<in> uid ` set (userDocs d))"

section \<open>What the libraries promise\<close>

text \<open>
  \<^verbatim>\<open>jsonwebtoken\<close>: a token signed with a secret is not the empty string and verifies under
  that secret to the payload that was signed. \<^verbatim>\<open>bcrypt\<close>: a password compares equal to
  each of its own hashes.
\<close>

definition jwt_contract :: "env \<Rightarrow> bool" where
  "jwt_contract env =
     (\<forall>iat c. jwt_sign env iat c (JWT_SECRET env) \<noteq> [] \<and>
              jwt_verify env (jwt_sign env iat c (JWT_SECRET env)) (JWT_SECRET env) = Some c)"

definition bcrypt_contract :: "env \<Rightarrow> bool" where
  "bcrypt_contract env = (\<forall>sl pw r. bcrypt_compare env pw (bcrypt_hash env sl pw r))"

section \<open>A small environment to run the model in\<close>

text \<open>
  Stand-ins for the two libraries that keep the promises above, for running the handlers
  on concrete requests: numbers in unary, strings prefixed by their length, a token the
  concatenation of secret, time stamp and payload, a hash the salt followed by the
  password.
\<close>

fun enc_nat :: "nat \<Rightarrow> string" where
  "enc_nat n = replicate n CHR ''1'' @ ''0''"

fun dec_nat :: "string \<Rightarrow> (nat \<times> string) option" where
  "dec_nat [] = None"
| "dec_nat (c # cs) =
     (if c = CHR ''0'' then Some (0, cs)
      else if c = CHR ''1'' then map_option (\<lambda>(n, r). (Suc n, r)) (dec_nat cs)
      else None)"

definition enc_str :: "string \<Rightarrow> string" where
  "enc_str s = enc_nat (length s) @ s"

definition dec_str :: "string \<Rightarrow> (string \<times> string) option" where
  "dec_str t =
     (case dec_nat t of
        None \<Rightarrow> None
      | Some (n, r) \<Rightarrow> if length r < n then None else Some (take n r, drop n r))"

definition toy_sign :: "nat \<Rightarrow> claims \<Rightarrow> string \<Rightarrow> string" where
  "toy_sign iat c s =
     enc_str s @ enc_nat iat @ enc_nat (userId c) @ enc_str (name c) @ enc_str (email c)
       @ enc_str (password c) @ enc_str (createdAt c)"

definition toy_verify :: "string \<Rightarrow> string \<Rightarrow> claims option" where
  "toy_verify t s =
     (case dec_str t of None \<Rightarrow> None | Some (s', t1) \<Rightarrow>
      if s' \<noteq> s then None else
      case dec_nat t1 of None \<Rightarrow> None | Some (iat, t2) \<Rightarrow>
      case dec_nat t2 of None \<Rightarrow> None | Some (i, t3) \<Rightarrow>
      case dec_str t3 of None \<Rightarrow> None | Some (n, t4) \<Rightarrow>
      case dec_str t4 of None \<Rightarrow> None | Some (e, t5) \<Rightarrow>
      case dec_str t5 of None \<Rightarrow> None | Some (p, t6) \<Rightarrow>
      case dec_str t6 of None \<Rightarrow> None | Some (c, t7) \<Rightarrow>
      if t7 \<noteq> [] then None
      else Some \<lparr>name = n, email = e, password = p, createdAt = c, userId = i\<rparr>)"

definition toy_hash :: "string \<Rightarrow> string \<Rightarrow> nat \<Rightarrow> string" where
  "toy_hash sl pw rounds = enc_str sl @ pw"

definition toy_compare :: "string \<Rightarrow> string \<Rightarrow> bool" where
  "toy_compare pw h = (case dec_str h of None \<Rightarrow> False | Some (sl, r) \<Rightarrow> r = pw)"

definition env0 :: env where
  "env0 = \<lparr>JWT_SECRET = ''k'', jwt_sign = toy_sign, jwt_verify = toy_verify,
           bcrypt_hash = toy_hash, bcrypt_compare = toy_compare, bucketName = ''fs''\<rparr>"

definition calm :: ambient where
  "calm = \<lparr>fault = NoFault, now = 1, salt = ''s''\<rparr>"

definition alice_body :: identity where
  "alice_body = \<lparr>name = ''Alice'', email = ''alice@x.com'', password = ''pw1'', createdAt = ''t''\<rparr>"

definition alice :: user where
  "alice = \<lparr>name = ''Alice'', email = ''alice@x.com'', password = toy_hash ''s'' ''pw1'' 10,
            createdAt = ''t'', uid = 0, files = []\<rparr>"

definition alice_token :: string where
  "alice_token = toy_sign 1 (claims_of alice) ''k''"

definition db_alice :: db where
  "db_alice = \<lparr>userDocs = [alice], fileDocs = [], gridfs = [], next_oid = 1\<rparr>"

definition a_txt :: part where
  "a_txt = \<lparr>fieldname = ''file'', part_originalname = ''a.txt'', mimetype = ''text/plain'',
            data = [104, 105]\<rparr>"


definition disk_full :: ambient where
  "disk_full = \<lparr>fault = StorageFails, now = 1, salt = ''s''\<rparr>"

definition bare :: upload_req where
  "bare = \<lparr>token = None, file_part = None, req_user = None, req_file = None\<rparr>"

definition a_txt_again :: part where
  "a_txt_again = \<lparr>fieldname = ''file'', part_originalname = ''a.txt'',
                  mimetype = ''text/plain'', data = [98, 121, 101]\<rparr>"

definition nameless :: part where
  "nameless = \<lparr>fieldname = ''file'', part_originalname = [], mimetype = ''text/plain'',
               data = [104, 105]\<rparr>"

definition avatar :: part where
  "avatar = \<lparr>fieldname = ''avatar'', part_originalname = ''a.txt'', mimetype = ''text/plain'',
             data = [104, 105]\<rparr>"

definition later :: ambient where
  "later = \<lparr>fault = NoFault, now = 2, salt = ''s2''\<rparr>"

definition alice_token_later :: string where
  "alice_token_later = toy_sign 2 (claims_of alice) ''k''"

definition up_alice :: upload_request where
  "up_alice = \<lparr>token = Some alice_token, file_part = Some a_txt\<rparr>"

definition up_garbage :: upload_request where
  "up_garbage = \<lparr>token = Some ''x'', file_part = Some a_txt\<rparr>"

definition day :: "(ambient \<times> request) list" where
  "day = [(calm, Register alice_body), (calm, Upload up_alice), (calm, Upload up_garbage),
          (calm, DeleteFile 1), (calm, GetFile ''1''), (calm, Login ''alice@x.com'' ''pw1'')]"

definition db_evening :: db where
  "db_evening =
     \<lparr>userDocs = [alice\<lparr>files := [''a.txt'']\<rparr>],
      fileDocs = [\<lparr>filename = ''a.txt'', originalname = ''a.txt'', contentType = ''text/plain'',
                   size' = 2, fid = 2, owner = 0\<rparr>],
      gridfs = [\<lparr>blob_id = 1, root = ''fs'', blob_filename = ''a.txt'',
                 blob_contentType = ''text/plain'', blob_data = [104, 105]\<rparr>],
      next_oid = 3\<rparr>"

section \<open>The stand-ins keep the promises\<close>

lemma dec_enc_nat: "dec_nat (enc_nat n @ r) = Some (n, r)"
  by (induction n) simp_all

lemma dec_enc_str: "dec_str (enc_str s @ r) = Some (s, r)"
  by (simp add: dec_str_def enc_str_def dec_enc_nat del: enc_nat.simps)

lemma dec_enc_str_end: "dec_str (enc_str s) = Some (s, [])"
  using dec_enc_str [where s = s and r = "[]"] by simp

lemma toy_roundtrip: "toy_verify (toy_sign iat c s) s = Some c"
  by (simp add: toy_verify_def toy_sign_def dec_enc_nat dec_enc_str dec_enc_str_end
      del: enc_nat.simps)

lemma toy_sign_nonempty: "toy_sign iat c s \<noteq> []"
  by (simp add: toy_sign_def enc_str_def)

lemma toy_compare_hash: "toy_compare pw (toy_hash sl pw r)"
  by (simp add: toy_compare_def toy_hash_def dec_enc_str)

lemma env0_jwt_contract: "jwt_contract env0"
  by (simp add: jwt_contract_def env0_def toy_roundtrip toy_sign_nonempty)

lemma env0_bcrypt_contract: "bcrypt_contract env0"
  by (simp add: bcrypt_contract_def env0_def toy_compare_hash)

lemma register_alice:
  "register env0 calm alice_body db_init =
     (db_alice, Sent \<lparr>status = 201,
                      body = MsgUserToken ''User registered successfully!!'' alice alice_token\<rparr>)"
  by (simp add: register_def User_findOne_def User_save_def db_init_def db_alice_def
      calm_def alice_body_def alice_def alice_token_def env0_def Let_def)

lemma toy_compare_iff: "toy_compare pw (toy_hash sl pw' r) = (pw' = pw)"
  by (simp add: toy_compare_def toy_hash_def dec_enc_str)

lemma verify_alice_token: "jwt_verify env0 alice_token (JWT_SECRET env0) = Some (claims_of alice)"
  by (simp add: env0_def alice_token_def toy_roundtrip)

lemma alice_token_nonempty: "alice_token \<noteq> []"
  by (simp add: alice_token_def toy_sign_nonempty)

lemma verify_garbage: "jwt_verify env0 ''x'' (JWT_SECRET env0) = None"
  by (simp add: env0_def toy_verify_def dec_str_def)

lemma findOne_alice: "User_findOne db_alice ''alice@x.com'' = Some alice"
  by (simp add: User_findOne_def db_alice_def alice_def)

section \<open>Facts about data access\<close>

lemma findOne_None_iff: "User_findOne d e = None \<longleftrightarrow> (\<forall>u \<in> set (userDocs d). email u \<noteq> e)"
  by (auto simp add: User_findOne_def find_None_iff)

lemma findOne_Some_mem: "User_findOne d e = Some u \<Longrightarrow> u \<in> set (userDocs d) \<and> email u = e"
  by (auto simp add: User_findOne_def find_Some_iff)

section \<open>Registration rejects a known email\<close>

text \<open>
  Claim C1. Whenever the \<^verbatim>\<open>User\<close> collection already holds a document with the requested
  email (and the lookup itself does not fail), \<^verbatim>\<open>/register\<close> answers 400 ``User already
  exists'' and leaves the database as it was. Hence, from a database without that email,
  two registrations with the same email, the first of them meeting no failure, leave
  exactly one user document with that email: the second is rejected and changes nothing.
  The handler is the same text in both copies of the server.
\<close>

theorem register_duplicate:
  "(fault amb \<noteq> FindOneFails \<and> (\<exists>u \<in> set (userDocs d). email u = email req) \<longrightarrow>
      register env amb req d = (d, Sent DuplicateUser)) \<and>
   status DuplicateUser = 400 \<and>
   (fault amb1 = NoFault \<and> fault amb2 \<noteq> FindOneFails \<and> email req2 = email req1 \<and>
    (\<forall>u \<in> set (userDocs d0). email u \<noteq> email req1) \<longrightarrow>
      (let r1 = register env amb1 req1 d0; r2 = register env amb2 req2 (fst r1)
       in snd r2 = Sent DuplicateUser \<and> fst r2 = fst r1 \<and>
          length (filter (\<lambda>u. email u = email req1) (userDocs (fst r2))) = 1))"
proof -
  have dup: "register env a r x = (x, Sent DuplicateUser)"
    if "fault a \<noteq> FindOneFails" "\<exists>u \<in> set (userDocs x). email u = email r" for a r x
  proof -
    from that(2) have "User_findOne x (email r) \<noteq> None"
      by (simp add: findOne_None_iff)
    then obtain u where "User_findOne x (email r) = Some u" by auto
    with that(1) show ?thesis by (simp add: register_def)
  qed
  have two: "(let r1 = register env amb1 req1 d0; r2 = register env amb2 req2 (fst r1)
       in snd r2 = Sent DuplicateUser \<and> fst r2 = fst r1 \<and>
          length (filter (\<lambda>u. email u = email req1) (userDocs (fst r2))) = 1)"
    if h: "fault amb1 = NoFault" "fault amb2 \<noteq> FindOneFails" "email req2 = email req1"
      "\<forall>u \<in> set (userDocs d0). email u \<noteq> email req1"
  proof -
    from h(4) have none: "User_findOne d0 (email req1) = None"
      by (simp add: findOne_None_iff)
    define r1 where "r1 = register env amb1 req1 d0"
    have users1: "userDocs (fst r1) = userDocs d0 @
        [\<lparr>name = name req1, email = email req1,
          password = bcrypt_hash env (salt amb1) (password req1) 10,
          createdAt = createdAt req1, uid = next_oid d0, files = []\<rparr>]"
      using h(1) none by (simp add: r1_def register_def User_save_def Let_def)
    have "\<exists>u \<in> set (userDocs (fst r1)). email u = email req2"
      using users1 h(3) by simp
    from dup [OF h(2) this]
    have r2: "register env amb2 req2 (fst r1) = (fst r1, Sent DuplicateUser)" .
    have "filter (\<lambda>u. email u = email req1) (userDocs d0) = []"
      using h(4) by (simp add: filter_empty_conv)
    then have "length (filter (\<lambda>u. email u = email req1) (userDocs (fst r1))) = 1"
      using users1 by simp
    with r2 show ?thesis by (simp add: r1_def Let_def)
  qed
  show ?thesis using dup two by (simp add: DuplicateUser_def)
qed

theorem register_duplicate_witness:
  "fault calm = NoFault \<and> alice \<in> set (userDocs db_alice) \<and> email alice = email alice_body \<and>
   register env0 calm alice_body db_alice = (db_alice, Sent DuplicateUser) \<and>
   userDocs db_init = [] \<and>
   register env0 calm alice_body (fst (register env0 calm alice_body db_init))
     = (db_alice, Sent DuplicateUser) \<and>
   length (filter (\<lambda>u. email u = email alice_body) (userDocs db_alice)) = 1"
proof -
  have a: "fault calm = NoFault" by (simp add: calm_def)
  have b: "alice \<in> set (userDocs db_alice)" by (simp add: db_alice_def)
  have c: "email alice = email alice_body" by (simp add: alice_def alice_body_def)
  have e: "userDocs db_init = []" by (simp add: db_init_def)
  have f: "length (filter (\<lambda>u. email u = email alice_body) (userDocs db_alice)) = 1"
    by (simp add: db_alice_def alice_def alice_body_def)
  have g: "\<exists>u \<in> set (userDocs db_alice). email u = email alice_body"
    using b c by blast
  note T = register_duplicate
    [of calm db_alice alice_body env0 calm calm alice_body alice_body db_init]
  from T a g have "register env0 calm alice_body db_alice = (db_alice, Sent DuplicateUser)"
    by simp
  with a b c e f show ?thesis by (simp add: register_alice)
qed

section \<open>The token middleware\<close>

text \<open>
  Claim C3. \<^verbatim>\<open>validateToken\<close> answers 401 ``Unauthorized'' when the request has no
  \<^verbatim>\<open>token\<close> header; it answers 401 ``Invalid token'' when a token is there and
  \<^verbatim>\<open>jwt.verify\<close> under \<^verbatim>\<open>JWT_SECRET\<close> rejects it; and when \<^verbatim>\<open>jwt.verify\<close> returns
  the decoded claims, the next handler runs on the request with \<^verbatim>\<open>req.user\<close> set to
  them (so \<^verbatim>\<open>req.user.userId\<close> is the token's). In the first two cases the next handler
  does not run and the database is untouched.
\<close>

theorem validateToken_outcomes:
  "validateToken env (req\<lparr>token := None\<rparr>) d nxt = (d, Sent Unauthorized) \<and>
   status Unauthorized = 401 \<and> status InvalidToken = 401 \<and>
   (t \<noteq> [] \<and> jwt_verify env t (JWT_SECRET env) = None \<longrightarrow>
      validateToken env (req\<lparr>token := Some t\<rparr>) d nxt = (d, Sent InvalidToken)) \<and>
   (t' \<noteq> [] \<and> jwt_verify env t' (JWT_SECRET env) = Some c \<longrightarrow>
      validateToken env (req\<lparr>token := Some t'\<rparr>) d nxt
        = nxt (req\<lparr>token := Some t', req_user := Some c\<rparr>) d)"
  by (simp add: validateToken_def falsy_def Unauthorized_def InvalidToken_def)

theorem validateToken_outcomes_witness:
  "validateToken env0 (bare\<lparr>token := None\<rparr>) db_alice (upload_handler calm)
     = (db_alice, Sent Unauthorized) \<and>
   ''x'' \<noteq> [] \<and> jwt_verify env0 ''x'' (JWT_SECRET env0) = None \<and>
   validateToken env0 (bare\<lparr>token := Some ''x''\<rparr>) db_alice (upload_handler calm)
     = (db_alice, Sent InvalidToken) \<and>
   alice_token \<noteq> [] \<and>
   jwt_verify env0 alice_token (JWT_SECRET env0) = Some (claims_of alice) \<and>
   validateToken env0 (bare\<lparr>token := Some alice_token\<rparr>) db_alice (upload_handler calm)
     = upload_handler calm
         (bare\<lparr>token := Some alice_token, req_user := Some (claims_of alice)\<rparr>) db_alice"
  using validateToken_outcomes
    [of env0 bare db_alice "upload_handler calm" "''x''" alice_token "claims_of alice"]
    verify_alice_token alice_token_nonempty verify_garbage
  by simp

section \<open>Login\<close>



section \<open>Deleting a file\<close>

text \<open>
  Claim C7, as the handler has it. \<^verbatim>\<open>DELETE /files/:id\<close> has two outcomes: 500 ``Error
  deleting the file'' when \<^verbatim>\<open>gfs.remove\<close> reports an error, and 200 ``File deleted
  successfully'' otherwise, also when no file has the id. It never answers 404. In
  neither case does it change the \<^verbatim>\<open>File\<close> collection (or the users): it removes from
  the GridFS bucket \<^verbatim>\<open>uploads\<close> only.
\<close>

theorem deleteFile_outcomes:
  "fileDocs (fst (deleteFile amb i d)) = fileDocs d \<and>
   userDocs (fst (deleteFile amb i d)) = userDocs d \<and>
   snd (deleteFile amb i d) \<noteq> Sent NotFound \<and>
   snd (deleteFile amb i d) =
     (if fault amb = StorageFails then Sent StorageError
      else Sent \<lparr>status = 200, body = Message ''File deleted successfully''\<rparr>) \<and>
   gridfs (fst (deleteFile amb i d)) =
     (if fault amb = StorageFails then gridfs d
      else filter (\<lambda>b. \<not> (root b = ''uploads'' \<and> blob_id b = i)) (gridfs d))"
  by (simp add: deleteFile_def gfs_remove_def NotFound_def StorageError_def)

theorem deleteFile_outcomes_witness:
  "snd (deleteFile disk_full 7 db_alice) = Sent StorageError \<and>
   snd (deleteFile calm 7 db_alice)
     = Sent \<lparr>status = 200, body = Message ''File deleted successfully''\<rparr> \<and>
   fileDocs (fst (deleteFile calm 7 db_alice)) = fileDocs db_alice"
  using deleteFile_outcomes [of disk_full 7 db_alice] deleteFile_outcomes [of calm 7 db_alice]
  by (simp add: disk_full_def calm_def)

text \<open>
  The claim as written fails: on the empty database, where no file has id 7, the handler
  answers 200, not 404.
\<close>

theorem deleteFile_missing_counterexample:
  "gridfs db_init = [] \<and> fileDocs db_init = [] \<and>
   deleteFile calm 7 db_init
     = (db_init, Sent \<lparr>status = 200, body = Message ''File deleted successfully''\<rparr>) \<and>
   snd (deleteFile calm 7 db_init) \<noteq> Sent NotFound"
  by (simp add: deleteFile_def gfs_remove_def db_init_def calm_def NotFound_def)

section \<open>Upload without a file\<close>

text \<open>
  Claim C8. An upload whose token verifies and whose request carries no file is answered
  400 ``No file uploaded'' and changes nothing: the database that comes back, with its
  GridFS buckets, its \<^verbatim>\<open>File\<close> collection and its users, is the one that went in.
\<close>

theorem upload_without_file:
  "t \<noteq> [] \<Longrightarrow> jwt_verify env t (JWT_SECRET env) = Some c \<Longrightarrow>
   upload env amb \<lparr>token = Some t, file_part = None\<rparr> d = (d, Sent NoFilePresent) \<and>
   gridfs (fst (upload env amb \<lparr>token = Some t, file_part = None\<rparr> d)) = gridfs d \<and>
   fileDocs (fst (upload env amb \<lparr>token = Some t, file_part = None\<rparr> d)) = fileDocs d \<and>
   userDocs (fst (upload env amb \<lparr>token = Some t, file_part = None\<rparr> d)) = userDocs d"
  by (simp add: upload_def validateToken_def falsy_def upload_single_def upload_handler_def)

theorem upload_without_file_witness:
  "alice_token \<noteq> [] \<and>
   jwt_verify env0 alice_token (JWT_SECRET env0) = Some (claims_of alice) \<and>
   upload env0 calm \<lparr>token = Some alice_token, file_part = None\<rparr> db_alice
     = (db_alice, Sent NoFilePresent) \<and>
   status NoFilePresent = 400"
  using upload_without_file [of alice_token env0 "claims_of alice" calm db_alice]
    verify_alice_token alice_token_nonempty
  by (simp add: NoFilePresent_def)

section \<open>The password hash in the response\<close>

text \<open>
  Claim C10. A 201 of \<^verbatim>\<open>/register\<close> and a 200 of \<^verbatim>\<open>/login\<close> carry, as \<^verbatim>\<open>user\<close>, the stored
  user document with its \<^verbatim>\<open>password\<close> field, which is the \<^verbatim>\<open>bcrypt\<close> hash (the one just
  computed with cost 10 in \<^verbatim>\<open>/register\<close>, the stored one that \<^verbatim>\<open>bcrypt.compare\<close> accepted
  in \<^verbatim>\<open>/login\<close>); the same hash is the \<^verbatim>\<open>password\<close> claim of the token in that response.
\<close>

theorem body_carries_password_hash:
  "(register env amb req d = (d', Sent r) \<and> status r = 201 \<longrightarrow>
      (\<exists>u. body r = MsgUserToken ''User registered successfully!!'' u
                       (jwt_sign env (now amb) (claims_of u) (JWT_SECRET env)) \<and>
           u \<in> set (userDocs d') \<and>
           password u = bcrypt_hash env (salt amb) (password req) 10 \<and>
           password (claims_of u) = password u)) \<and>
   (login env amb2 e p d2 = (d2', Sent r2) \<and> status r2 = 200 \<longrightarrow>
      (\<exists>u. body r2 = MsgUserToken ''User logged in successfully!'' u
                        (jwt_sign env (now amb2) (claims_of u) (JWT_SECRET env)) \<and>
           User_findOne d2 e = Some u \<and> u \<in> set (userDocs d2') \<and>
           bcrypt_compare env p (password u) \<and>
           password (claims_of u) = password u))"
proof -
  have reg: "\<exists>u. body r = MsgUserToken ''User registered successfully!!'' u
                       (jwt_sign env (now amb) (claims_of u) (JWT_SECRET env)) \<and>
           u \<in> set (userDocs d') \<and>
           password u = bcrypt_hash env (salt amb) (password req) 10 \<and>
           password (claims_of u) = password u"
    if "register env amb req d = (d', Sent r)" "status r = 201"
    using that
    by (auto simp add: register_def DuplicateUser_def User_save_def Let_def claims_of_def
        split: if_splits option.splits)
  have log: "\<exists>u. body r2 = MsgUserToken ''User logged in successfully!'' u
                        (jwt_sign env (now amb2) (claims_of u) (JWT_SECRET env)) \<and>
           User_findOne d2 e = Some u \<and> u \<in> set (userDocs d2') \<and>
           bcrypt_compare env p (password u) \<and>
           password (claims_of u) = password u"
    if "login env amb2 e p d2 = (d2', Sent r2)" "status r2 = 200"
    using that
    by (auto simp add: login_def ServerError_def UserNotFound_def InvalidCredentials_def
        Let_def claims_of_def dest: findOne_Some_mem split: if_splits option.splits)
  show ?thesis using reg log by blast
qed

theorem body_carries_password_hash_witness:
  "register env0 calm alice_body db_init =
     (db_alice, Sent \<lparr>status = 201,
                      body = MsgUserToken ''User registered successfully!!'' alice alice_token\<rparr>) \<and>
   login env0 calm ''alice@x.com'' ''pw1'' db_alice =
     (db_alice, Sent \<lparr>status = 200,
                      body = MsgUserToken ''User logged in successfully!'' alice alice_token\<rparr>) \<and>
   alice \<in> set (userDocs db_alice) \<and>
   password alice = bcrypt_hash env0 (salt calm) (password alice_body) 10 \<and>
   bcrypt_compare env0 ''pw1'' (password alice) \<and>
   password (claims_of alice) = password alice"
proof -
  have l: "login env0 calm ''alice@x.com'' ''pw1'' db_alice =
     (db_alice, Sent \<lparr>status = 200,
                      body = MsgUserToken ''User logged in successfully!'' alice alice_token\<rparr>)"
    by (simp add: login_def findOne_alice calm_def env0_def alice_def toy_compare_iff
        alice_token_def)
  have h: "password alice = bcrypt_hash env0 (salt calm) (password alice_body) 10"
    by (simp add: alice_def env0_def calm_def alice_body_def)
  from body_carries_password_hash
    [of env0 calm alice_body db_init db_alice
      "\<lparr>status = 201,
        body = MsgUserToken ''User registered successfully!!'' alice alice_token\<rparr>"
      calm "''alice@x.com''" "''pw1''" db_alice db_alice
      "\<lparr>status = 200,
        body = MsgUserToken ''User logged in successfully!'' alice alice_token\<rparr>"]
    register_alice l h
  show ?thesis by auto
qed

section \<open>A successful upload\<close>

lemma find_push_file:
  "find (\<lambda>u. uid u = i) us = Some u \<Longrightarrow>
   find (\<lambda>u. uid u = i) (push_file i fn us) = Some (u\<lparr>files := files u @ [fn]\<rparr>)"
  by (induction us) (auto split: if_splits)

lemma filter_push_file:
  "filter (\<lambda>u. uid u \<noteq> i) (push_file i fn us) = filter (\<lambda>u. uid u \<noteq> i) us"
  by (induction us) auto

lemma map_uid_push_file: "map uid (push_file i fn us) = map uid us"
  by (induction us) auto


lemma calm_fault: "fault calm = NoFault"
  by (simp add: calm_def)

lemma a_txt_storable:
  "fieldname a_txt = ''file''" "part_originalname a_txt \<noteq> []" "mimetype a_txt \<noteq> []"
  by (simp_all add: a_txt_def)

lemma a_txt_again_storable:
  "fieldname a_txt_again = ''file''" "part_originalname a_txt_again \<noteq> []"
  "mimetype a_txt_again \<noteq> []"
  by (simp_all add: a_txt_again_def)

text \<open>
  The result of an upload that passes every check and meets no failure: the token
  verifies, the file came under the field \<^verbatim>\<open>file\<close>, and its filename and content type are
  not empty.
\<close>

lemma upload_success:
  assumes "t \<noteq> []" "jwt_verify env t (JWT_SECRET env) = Some c" "fault amb = NoFault"
    "fieldname p = ''file''" "part_originalname p \<noteq> []" "mimetype p \<noteq> []"
  shows "upload env amb \<lparr>token = Some t, file_part = Some p\<rparr> d =
    (\<lparr>userDocs = push_file (userId c) (part_originalname p) (userDocs d),
      fileDocs = fileDocs d @
        [\<lparr>filename = part_originalname p, originalname = part_originalname p,
          contentType = mimetype p, size' = length (data p),
          fid = Suc (next_oid d), owner = userId c\<rparr>],
      gridfs = gridfs d @
        [\<lparr>blob_id = next_oid d, root = bucketName env, blob_filename = part_originalname p,
          blob_contentType = mimetype p, blob_data = data p\<rparr>],
      next_oid = Suc (Suc (next_oid d))\<rparr>,
     Sent \<lparr>status = 201,
           body = MsgNewFile ''File saved in database''
             \<lparr>filename = part_originalname p, originalname = part_originalname p,
              contentType = mimetype p, size' = length (data p),
              fid = Suc (next_oid d), owner = userId c\<rparr>\<rparr>)"
  using assms
  by (simp add: upload_def validateToken_def falsy_def upload_single_def upload_handler_def
      storage_file_def File_save_def File_validate_def User_findByIdAndUpdate_push_def Let_def)

text \<open>What the chain does with a file part that \<^verbatim>\<open>multer\<close> does not store.\<close>

lemma upload_empty_filename:
  assumes "t \<noteq> []" "jwt_verify env t (JWT_SECRET env) = Some c" "part_originalname p = []"
  shows "upload env amb \<lparr>token = Some t, file_part = Some p\<rparr> d = (d, Sent NoFilePresent)"
  using assms
  by (simp add: upload_def validateToken_def falsy_def upload_single_def upload_handler_def)

lemma upload_unexpected_field:
  assumes "t \<noteq> []" "jwt_verify env t (JWT_SECRET env) = Some c" "part_originalname p \<noteq> []"
    "fieldname p \<noteq> ''file''"
  shows "upload env amb \<lparr>token = Some t, file_part = Some p\<rparr> d = (d, Unhandled)"
  using assms
  by (simp add: upload_def validateToken_def falsy_def upload_single_def)

text \<open>
  Claim C2, as the upload chain has it. Take an upload whose token verifies and whose
  request carries a file under the field \<^verbatim>\<open>file\<close>, with a filename and a content type that
  are not empty, and let the storage and database calls succeed. It adds exactly one
  document to the \<^verbatim>\<open>File\<close> collection, with \<^verbatim>\<open>owner\<close> the \<^verbatim>\<open>userId\<close> claim of the token
  and \<^verbatim>\<open>filename\<close> the storage filename; the answer is 201 with that document. The user
  document that \<^verbatim>\<open>findByIdAndUpdate\<close> finds for that id has the storage filename appended
  to its \<^verbatim>\<open>files\<close>, once; the documents of other users are as before.
\<close>

theorem upload_creates_one_file:
  assumes "t \<noteq> []" "jwt_verify env t (JWT_SECRET env) = Some c" "fault amb = NoFault"
    "fieldname p = ''file''" "part_originalname p \<noteq> []" "mimetype p \<noteq> []"
  shows "\<exists>nf. fileDocs (fst (upload env amb \<lparr>token = Some t, file_part = Some p\<rparr> d))
               = fileDocs d @ [nf] \<and>
             owner nf = userId c \<and>
             filename nf = storage_file req p \<and>
             snd (upload env amb \<lparr>token = Some t, file_part = Some p\<rparr> d)
               = Sent \<lparr>status = 201, body = MsgNewFile ''File saved in database'' nf\<rparr> \<and>
             (\<forall>u. find (\<lambda>u. uid u = userId c) (userDocs d) = Some u \<longrightarrow>
                  find (\<lambda>u. uid u = userId c)
                    (userDocs (fst (upload env amb \<lparr>token = Some t, file_part = Some p\<rparr> d)))
                    = Some (u\<lparr>files := files u @ [filename nf]\<rparr>)) \<and>
             filter (\<lambda>u. uid u \<noteq> userId c)
                 (userDocs (fst (upload env amb \<lparr>token = Some t, file_part = Some p\<rparr> d)))
               = filter (\<lambda>u. uid u \<noteq> userId c) (userDocs d)"
  by (simp add: upload_success [OF assms] find_push_file filter_push_file storage_file_def)

theorem upload_creates_one_file_witness:
  "alice_token \<noteq> [] \<and>
   jwt_verify env0 alice_token (JWT_SECRET env0) = Some (claims_of alice) \<and>
   fault calm = NoFault \<and>
   fieldname a_txt = ''file'' \<and> part_originalname a_txt \<noteq> [] \<and> mimetype a_txt \<noteq> [] \<and>
   fileDocs (fst (upload env0 calm \<lparr>token = Some alice_token, file_part = Some a_txt\<rparr> db_alice))
     = [\<lparr>filename = ''a.txt'', originalname = ''a.txt'', contentType = ''text/plain'',
         size' = 2, fid = 2, owner = uid alice\<rparr>] \<and>
   userDocs (fst (upload env0 calm \<lparr>token = Some alice_token, file_part = Some a_txt\<rparr> db_alice))
     = [alice\<lparr>files := [''a.txt'']\<rparr>]"
  using upload_creates_one_file
      [OF alice_token_nonempty verify_alice_token calm_fault a_txt_storable, of db_alice bare]
    upload_success
      [OF alice_token_nonempty verify_alice_token calm_fault a_txt_storable, of db_alice]
    alice_token_nonempty verify_alice_token calm_fault a_txt_storable
  by (simp add: a_txt_def db_alice_def claims_of_def alice_def)

text \<open>
  The claim as written fails: a token that verifies and a payload of two bytes do not
  suffice. Sent with an empty filename the payload counts as no file, the answer is 400
  ``No file uploaded'' and nothing is stored; sent under the field \<^verbatim>\<open>avatar\<close> it is refused
  by the upload middleware, and again no \<^verbatim>\<open>File\<close> document is created.
\<close>

theorem upload_not_stored_counterexample:
  "alice_token \<noteq> [] \<and>
   jwt_verify env0 alice_token (JWT_SECRET env0) = Some (claims_of alice) \<and>
   fault calm = NoFault \<and>
   data nameless = [104, 105] \<and> data avatar = [104, 105] \<and>
   upload env0 calm \<lparr>token = Some alice_token, file_part = Some nameless\<rparr> db_alice
     = (db_alice, Sent NoFilePresent) \<and>
   upload env0 calm \<lparr>token = Some alice_token, file_part = Some avatar\<rparr> db_alice
     = (db_alice, Unhandled) \<and>
   fileDocs db_alice = []"
proof -
  have n: "part_originalname nameless = []" by (simp add: nameless_def)
  have a: "part_originalname avatar \<noteq> []" "fieldname avatar \<noteq> ''file''"
    by (simp_all add: avatar_def)
  show ?thesis
    by (simp add: upload_empty_filename [OF alice_token_nonempty verify_alice_token n]
        upload_unexpected_field [OF alice_token_nonempty verify_alice_token a]
        alice_token_nonempty verify_alice_token calm_fault)
      (simp add: nameless_def avatar_def db_alice_def)
qed

section \<open>The storage filename\<close>

text \<open>
  Claim C5, as the storage engine is configured. The \<^verbatim>\<open>file\<close> option of \<^verbatim>\<open>GridFsStorage\<close>
  returns \<^verbatim>\<open>{ filename: file.originalname }\<close> (in both copies of the server): the storage
  filename is the original name the client sent, not a generated one. So files with the
  same original name get the same storage filename, and an upload that stores a file (the
  token verifies, the file came under the field \<^verbatim>\<open>file\<close> with a filename and a content
  type that are not empty, no call fails) stores the bytes in GridFS, and records the
  \<^verbatim>\<open>File\<close> document, under the original name.
\<close>

theorem storage_filename_is_originalname:
  "storage_file req p = part_originalname p \<and>
   (part_originalname p' = part_originalname p \<longrightarrow> storage_file req' p' = storage_file req p) \<and>
   (t \<noteq> [] \<and> jwt_verify env t (JWT_SECRET env) = Some c \<and> fault amb = NoFault \<and>
    fieldname p = ''file'' \<and> part_originalname p \<noteq> [] \<and> mimetype p \<noteq> [] \<longrightarrow>
      map blob_filename
          (gridfs (fst (upload env amb \<lparr>token = Some t, file_part = Some p\<rparr> d)))
        = map blob_filename (gridfs d) @ [part_originalname p] \<and>
      map filename
          (fileDocs (fst (upload env amb \<lparr>token = Some t, file_part = Some p\<rparr> d)))
        = map filename (fileDocs d) @ [part_originalname p])"
  by (simp add: upload_success storage_file_def)

theorem storage_filename_is_originalname_witness:
  "part_originalname a_txt_again = part_originalname a_txt \<and>
   storage_file bare a_txt_again = storage_file bare a_txt \<and>
   alice_token \<noteq> [] \<and>
   jwt_verify env0 alice_token (JWT_SECRET env0) = Some (claims_of alice) \<and>
   fault calm = NoFault \<and>
   fieldname a_txt = ''file'' \<and> part_originalname a_txt \<noteq> [] \<and> mimetype a_txt \<noteq> [] \<and>
   map blob_filename
     (gridfs (fst (upload env0 calm \<lparr>token = Some alice_token, file_part = Some a_txt\<rparr> db_alice)))
     = [''a.txt'']"
  using storage_filename_is_originalname
      [of bare a_txt a_txt_again bare alice_token env0 "claims_of alice" calm db_alice]
    alice_token_nonempty verify_alice_token calm_fault a_txt_storable
  by (simp add: a_txt_def a_txt_again_def db_alice_def)

text \<open>
  The claim as written fails: two uploads by the same user of different bytes under the
  original name \<^verbatim>\<open>a.txt\<close> are both stored under \<^verbatim>\<open>a.txt\<close>.
\<close>

theorem same_name_same_storage_filename_counterexample:
  "data a_txt \<noteq> data a_txt_again \<and>
   map blob_filename
     (gridfs (fst (upload env0 calm \<lparr>token = Some alice_token, file_part = Some a_txt_again\<rparr>
        (fst (upload env0 calm \<lparr>token = Some alice_token, file_part = Some a_txt\<rparr> db_alice)))))
     = [''a.txt'', ''a.txt''] \<and>
   map filename
     (fileDocs (fst (upload env0 calm \<lparr>token = Some alice_token, file_part = Some a_txt_again\<rparr>
        (fst (upload env0 calm \<lparr>token = Some alice_token, file_part = Some a_txt\<rparr> db_alice)))))
     = [''a.txt'', ''a.txt'']"
  by (simp add: upload_success
        [OF alice_token_nonempty verify_alice_token calm_fault a_txt_storable]
      upload_success
        [OF alice_token_nonempty verify_alice_token calm_fault a_txt_again_storable])
    (simp add: a_txt_def a_txt_again_def db_alice_def)

section \<open>Register, then log in\<close>

lemma find_snoc:
  "find P (xs @ [x]) = (case find P xs of Some y \<Rightarrow> Some y | None \<Rightarrow> if P x then Some x else None)"
  by (induction xs) auto

lemma validateToken_accepts:
  "jwt_contract env \<Longrightarrow>
   validateToken env (rq\<lparr>token := Some (jwt_sign env iat c (JWT_SECRET env))\<rparr>) d nxt
     = nxt (rq\<lparr>token := Some (jwt_sign env iat c (JWT_SECRET env)), req_user := Some c\<rparr>) d"
  by (simp add: validateToken_def falsy_def jwt_contract_def)

lemma register_token:
  "register env amb req d = (d', Sent \<lparr>status = s, body = MsgUserToken m u t\<rparr>) \<Longrightarrow>
   t = jwt_sign env (now amb) (claims_of u) (JWT_SECRET env) \<and> u \<in> set (userDocs d')"
  by (auto simp add: register_def DuplicateUser_def User_save_def Let_def
      split: if_splits option.splits)

lemma login_token:
  "login env amb e p d = (d', Sent \<lparr>status = s, body = MsgUserToken m u t\<rparr>) \<Longrightarrow>
   t = jwt_sign env (now amb) (claims_of u) (JWT_SECRET env) \<and> u \<in> set (userDocs d')"
  by (auto simp add: login_def ServerError_def UserNotFound_def InvalidCredentials_def Let_def
      dest: findOne_Some_mem split: if_splits option.splits)

text \<open>
  Claim C9. Let the libraries keep their promises. From a database without the email, a
  registration that meets no failure answers 201, and a login with the same email and
  password then answers 200 with the same user document; the two tokens verify under
  \<^verbatim>\<open>JWT_SECRET\<close> to the same claims: the \<^verbatim>\<open>_id\<close>, name, email, password hash and
  \<^verbatim>\<open>createdAt\<close> of that document. And every token in a response of \<^verbatim>\<open>/register\<close> or
  \<^verbatim>\<open>/login\<close> verifies to the claims of the user in that response, so that
  \<^verbatim>\<open>validateToken\<close> lets it through with \<^verbatim>\<open>req.user\<close> set to them.
\<close>

theorem register_then_login:
  assumes "jwt_contract env" "bcrypt_contract env"
  shows
  "(fault amb1 = NoFault \<and> fault amb2 \<noteq> FindOneFails \<and>
    (\<forall>u \<in> set (userDocs d). email u \<noteq> email req) \<longrightarrow>
      (\<exists>u t1 t2 d1.
         register env amb1 req d
           = (d1, Sent \<lparr>status = 201,
                        body = MsgUserToken ''User registered successfully!!'' u t1\<rparr>) \<and>
         login env amb2 (email req) (password req) d1
           = (d1, Sent \<lparr>status = 200,
                        body = MsgUserToken ''User logged in successfully!'' u t2\<rparr>) \<and>
         jwt_verify env t1 (JWT_SECRET env) = Some (claims_of u) \<and>
         jwt_verify env t2 (JWT_SECRET env) = Some (claims_of u) \<and>
         claims_of u = \<lparr>name = name req, email = email req,
                         password = bcrypt_hash env (salt amb1) (password req) 10,
                         createdAt = createdAt req, userId = uid u\<rparr>)) \<and>
   (register env amb3 req3 d3 = (d3', Sent \<lparr>status = s3, body = MsgUserToken m3 u3 t3\<rparr>) \<longrightarrow>
      jwt_verify env t3 (JWT_SECRET env) = Some (claims_of u3) \<and>
      validateToken env (rq\<lparr>token := Some t3\<rparr>) dd nxt
        = nxt (rq\<lparr>token := Some t3, req_user := Some (claims_of u3)\<rparr>) dd) \<and>
   (login env amb4 e4 p4 d4 = (d4', Sent \<lparr>status = s4, body = MsgUserToken m4 u4 t4\<rparr>) \<longrightarrow>
      jwt_verify env t4 (JWT_SECRET env) = Some (claims_of u4) \<and>
      validateToken env (rq\<lparr>token := Some t4\<rparr>) dd nxt
        = nxt (rq\<lparr>token := Some t4, req_user := Some (claims_of u4)\<rparr>) dd)"
proof -
  have ver: "jwt_verify env (jwt_sign env iat c (JWT_SECRET env)) (JWT_SECRET env) = Some c"
    for iat c
    using assms(1) by (simp add: jwt_contract_def)
  have cmp: "bcrypt_compare env pw (bcrypt_hash env sl pw r)" for sl pw r
    using assms(2) by (simp add: bcrypt_contract_def)
  have first: "\<exists>u t1 t2 d1.
         register env amb1 req d
           = (d1, Sent \<lparr>status = 201,
                        body = MsgUserToken ''User registered successfully!!'' u t1\<rparr>) \<and>
         login env amb2 (email req) (password req) d1
           = (d1, Sent \<lparr>status = 200,
                        body = MsgUserToken ''User logged in successfully!'' u t2\<rparr>) \<and>
         jwt_verify env t1 (JWT_SECRET env) = Some (claims_of u) \<and>
         jwt_verify env t2 (JWT_SECRET env) = Some (claims_of u) \<and>
         claims_of u = \<lparr>name = name req, email = email req,
                         password = bcrypt_hash env (salt amb1) (password req) 10,
                         createdAt = createdAt req, userId = uid u\<rparr>"
    if h: "fault amb1 = NoFault" "fault amb2 \<noteq> FindOneFails"
      "\<forall>u \<in> set (userDocs d). email u \<noteq> email req"
  proof -
    define u where "u = \<lparr>name = name req, email = email req,
        password = bcrypt_hash env (salt amb1) (password req) 10,
        createdAt = createdAt req, uid = next_oid d, files = []\<rparr>"
    define d1 where "d1 = d\<lparr>userDocs := userDocs d @ [u], next_oid := Suc (next_oid d)\<rparr>"
    from h(3) have none: "User_findOne d (email req) = None"
      by (simp add: findOne_None_iff)
    have reg: "register env amb1 req d
        = (d1, Sent \<lparr>status = 201,
                     body = MsgUserToken ''User registered successfully!!'' u
                       (jwt_sign env (now amb1) (claims_of u) (JWT_SECRET env))\<rparr>)"
      using h(1) none by (simp add: register_def User_save_def Let_def u_def d1_def)
    have "find (\<lambda>v. email v = email req) (userDocs d) = None"
      using none by (simp add: User_findOne_def)
    then have found: "User_findOne d1 (email req) = Some u"
      by (simp add: User_findOne_def d1_def find_snoc u_def)
    have log: "login env amb2 (email req) (password req) d1
        = (d1, Sent \<lparr>status = 200,
                     body = MsgUserToken ''User logged in successfully!'' u
                       (jwt_sign env (now amb2) (claims_of u) (JWT_SECRET env))\<rparr>)"
      using h(2) found cmp [of "password req" "salt amb1" 10]
      by (simp add: login_def u_def)
    have cl: "claims_of u = \<lparr>name = name req, email = email req,
                         password = bcrypt_hash env (salt amb1) (password req) 10,
                         createdAt = createdAt req, userId = uid u\<rparr>"
      by (simp add: claims_of_def u_def)
    from reg log cl ver show ?thesis by blast
  qed
  have second: "jwt_verify env t3 (JWT_SECRET env) = Some (claims_of u3) \<and>
      validateToken env (rq\<lparr>token := Some t3\<rparr>) dd nxt
        = nxt (rq\<lparr>token := Some t3, req_user := Some (claims_of u3)\<rparr>) dd"
    if "register env amb3 req3 d3 = (d3', Sent \<lparr>status = s3, body = MsgUserToken m3 u3 t3\<rparr>)"
    using register_token [OF that] ver validateToken_accepts [OF assms(1)] by simp
  have third: "jwt_verify env t4 (JWT_SECRET env) = Some (claims_of u4) \<and>
      validateToken env (rq\<lparr>token := Some t4\<rparr>) dd nxt
        = nxt (rq\<lparr>token := Some t4, req_user := Some (claims_of u4)\<rparr>) dd"
    if "login env amb4 e4 p4 d4 = (d4', Sent \<lparr>status = s4, body = MsgUserToken m4 u4 t4\<rparr>)"
    using login_token [OF that] ver validateToken_accepts [OF assms(1)] by simp
  from first second third show ?thesis by blast
qed

theorem register_then_login_witness:
  "jwt_contract env0 \<and> bcrypt_contract env0 \<and>
   fault calm = NoFault \<and> fault later \<noteq> FindOneFails \<and> userDocs db_init = [] \<and>
   register env0 calm alice_body db_init
     = (db_alice, Sent \<lparr>status = 201,
                        body = MsgUserToken ''User registered successfully!!'' alice alice_token\<rparr>) \<and>
   login env0 later (email alice_body) (password alice_body) db_alice
     = (db_alice, Sent \<lparr>status = 200,
                        body = MsgUserToken ''User logged in successfully!'' alice
                                 alice_token_later\<rparr>) \<and>
   jwt_verify env0 alice_token (JWT_SECRET env0) = Some (claims_of alice) \<and>
   jwt_verify env0 alice_token_later (JWT_SECRET env0) = Some (claims_of alice) \<and>
   alice_token \<noteq> alice_token_later"
proof -
  have l: "login env0 later (email alice_body) (password alice_body) db_alice
     = (db_alice, Sent \<lparr>status = 200,
                        body = MsgUserToken ''User logged in successfully!'' alice
                                 alice_token_later\<rparr>)"
    by (simp add: login_def findOne_alice later_def env0_def alice_def alice_body_def
        toy_compare_iff alice_token_later_def)
  have v: "jwt_verify env0 alice_token_later (JWT_SECRET env0) = Some (claims_of alice)"
    by (simp add: env0_def alice_token_later_def toy_roundtrip)
  have ne: "alice_token \<noteq> alice_token_later"
    by (simp add: alice_token_def alice_token_later_def toy_sign_def enc_str_def
        eval_nat_numeral)
  have f: "fault later \<noteq> FindOneFails" by (simp add: later_def)
  have e: "userDocs db_init = []" by (simp add: db_init_def)
  from register_then_login [OF env0_jwt_contract env0_bcrypt_contract,
      of calm later db_init alice_body]
    env0_jwt_contract env0_bcrypt_contract calm_fault f e register_alice l v ne
    verify_alice_token
  show ?thesis by simp
qed

section \<open>Every owner is a user\<close>

lemma owner_exists_iff:
  "owner_exists d \<longleftrightarrow> owner ` set (fileDocs d) \<subseteq> uid ` set (userDocs d)"
proof
  assume "owner_exists d"
  then show "owner ` set (fileDocs d) \<subseteq> uid ` set (userDocs d)"
    unfolding owner_exists_def by force
next
  assume a: "owner ` set (fileDocs d) \<subseteq> uid ` set (userDocs d)"
  show "owner_exists d"
    unfolding owner_exists_def
  proof
    fix f assume "f \<in> set (fileDocs d)"
    then have "owner f \<in> uid ` set (userDocs d)" using a by blast
    then show "\<exists>u \<in> set (userDocs d). uid u = owner f" by force
  qed
qed

lemma owner_exists_mono:
  "owner_exists d \<Longrightarrow> fileDocs d' = fileDocs d \<Longrightarrow>
   uid ` set (userDocs d) \<subseteq> uid ` set (userDocs d') \<Longrightarrow> owner_exists d'"
  unfolding owner_exists_iff by auto

lemma tokens_sound_mono:
  "tokens_sound env d toks \<Longrightarrow> uid ` set (userDocs d) \<subseteq> uid ` set (userDocs d') \<Longrightarrow>
   tokens_sound env d' toks"
  unfolding tokens_sound_def by blast

lemma tokens_sound_append:
  "tokens_sound env d (xs @ ys) \<longleftrightarrow> tokens_sound env d xs \<and> tokens_sound env d ys"
  unfolding tokens_sound_def by auto

lemma uids_push_file: "uid ` set (push_file i fn us) = uid ` set us"
  using map_uid_push_file [of i fn us] by (metis set_map)

text \<open>What each handler does to the users, the \<^verbatim>\<open>File\<close> documents and the tokens.\<close>

lemma tokens_sound_Nil: "tokens_sound env d []"
  by (simp add: tokens_sound_def)

lemma tokens_sound_single:
  "userId c \<in> uid ` set (userDocs d) \<Longrightarrow>
   tokens_sound env d [jwt_sign env iat c (JWT_SECRET env)]"
  unfolding tokens_sound_def by auto

lemma userId_claims_of: "userId (claims_of u) = uid u"
  by (simp add: claims_of_def)

lemma register_effect:
  "fileDocs (fst (register env amb req d)) = fileDocs d \<and>
   uid ` set (userDocs d) \<subseteq> uid ` set (userDocs (fst (register env amb req d))) \<and>
   tokens_sound env (fst (register env amb req d)) (token_of (snd (register env amb req d)))"
  by (auto simp add: register_def DuplicateUser_def User_save_def Let_def tokens_sound_Nil
      userId_claims_of intro!: tokens_sound_single split: option.splits)

lemma login_effect:
  "fst (login env amb e p d) = d \<and>
   tokens_sound env d (token_of (snd (login env amb e p d)))"
  by (auto simp add: login_def ServerError_def UserNotFound_def InvalidCredentials_def Let_def
      tokens_sound_Nil userId_claims_of intro!: tokens_sound_single
      dest!: findOne_Some_mem split: option.splits)

lemma getFile_effect:
  "fst (getFile amb i d) = d \<and> token_of (snd (getFile amb i d)) = []"
  by (simp add: getFile_def RetrieveError_def NotFound_def split: option.splits)

lemma deleteFile_effect:
  "fileDocs (fst (deleteFile amb i d)) = fileDocs d \<and>
   userDocs (fst (deleteFile amb i d)) = userDocs d \<and>
   token_of (snd (deleteFile amb i d)) = []"
  by (simp add: deleteFile_def StorageError_def gfs_remove_def)

lemma upload_effect:
  "uid ` set (userDocs (fst (upload env amb rq d))) = uid ` set (userDocs d) \<and>
   token_of (snd (upload env amb rq d)) = [] \<and>
   (fileDocs (fst (upload env amb rq d)) = fileDocs d \<or>
    (\<exists>t c nf. token rq = Some t \<and> jwt_verify env t (JWT_SECRET env) = Some c \<and>
       fileDocs (fst (upload env amb rq d)) = fileDocs d @ [nf] \<and> owner nf = userId c))"
  by (auto simp add: upload_def validateToken_def falsy_def upload_single_def upload_handler_def
      Unauthorized_def InvalidToken_def NoFilePresent_def File_save_def
      User_findByIdAndUpdate_push_def Let_def uids_push_file
      split: option.splits if_splits)


lemma accepted_token_of_user:
  assumes "jwt_contract env" "tokens_sound env d toks" "presented_ok env (Upload rq) toks"
    "token rq = Some t" "jwt_verify env t (JWT_SECRET env) = Some c"
  shows "userId c \<in> uid ` set (userDocs d)"
proof -
  from assms(3-5) have "t \<in> set toks"
    by (simp add: presented_ok_def)
  with assms(2) obtain iat c' where
    t: "t = jwt_sign env iat c' (JWT_SECRET env)" and c': "userId c' \<in> uid ` set (userDocs d)"
    unfolding tokens_sound_def by blast
  from assms(1) t have "jwt_verify env t (JWT_SECRET env) = Some c'"
    by (simp add: jwt_contract_def)
  with assms(5) have "c = c'" by simp
  with c' show ?thesis by simp
qed

lemma owner_exists_snoc:
  "owner_exists d \<Longrightarrow> fileDocs d' = fileDocs d @ [nf] \<Longrightarrow>
   uid ` set (userDocs d') = uid ` set (userDocs d) \<Longrightarrow>
   owner nf \<in> uid ` set (userDocs d) \<Longrightarrow> owner_exists d'"
  unfolding owner_exists_iff by auto

lemma handle_step:
  assumes c: "jwt_contract env" and o: "owner_exists d" and s: "tokens_sound env d toks"
    and p: "presented_ok env rq toks"
  shows "owner_exists (fst (handle env amb rq d)) \<and>
         tokens_sound env (fst (handle env amb rq d)) (toks @ token_of (snd (handle env amb rq d)))"
proof (cases rq)
  case (Register b)
  with o s register_effect [of env amb b d] show ?thesis
    by (auto simp add: tokens_sound_append intro: owner_exists_mono tokens_sound_mono)
next
  case (Login e pw)
  with o s login_effect [of env amb e pw d] show ?thesis
    by (simp add: tokens_sound_append)
next
  case (Upload u)
  note eff = upload_effect [of env amb u d]
  from eff have uids: "uid ` set (userDocs (fst (upload env amb u d))) = uid ` set (userDocs d)"
    and notok: "token_of (snd (upload env amb u d)) = []" by simp_all
  from eff consider
    (same) "fileDocs (fst (upload env amb u d)) = fileDocs d"
    | (more) t cl nf where "token u = Some t" "jwt_verify env t (JWT_SECRET env) = Some cl"
        "fileDocs (fst (upload env amb u d)) = fileDocs d @ [nf]" "owner nf = userId cl"
    by blast
  then have "owner_exists (fst (upload env amb u d))"
  proof cases
    case same
    with o uids show ?thesis by (auto intro: owner_exists_mono)
  next
    case more
    from accepted_token_of_user [OF c s _ more(1,2)] p Upload
    have "userId cl \<in> uid ` set (userDocs d)" by simp
    with o uids more(3,4) show ?thesis by (auto intro: owner_exists_snoc)
  qed
  moreover have "tokens_sound env (fst (upload env amb u d)) toks"
    using s uids by (auto intro: tokens_sound_mono)
  ultimately show ?thesis using Upload notok by simp
next
  case (GetFile i)
  with o s getFile_effect [of amb i d] show ?thesis by simp
next
  case (DeleteFile i)
  with o s deleteFile_effect [of amb i d] show ?thesis
    by (auto intro: owner_exists_mono tokens_sound_mono)
qed

lemma run_invariant:
  "jwt_contract env \<Longrightarrow> owner_exists (fst w) \<Longrightarrow> tokens_sound env (fst w) (snd w) \<Longrightarrow>
   unforged env evs w \<Longrightarrow>
   owner_exists (fst (run env evs w)) \<and>
   tokens_sound env (fst (run env evs w)) (snd (run env evs w))"
proof (induction evs arbitrary: w)
  case Nil
  then show ?case by simp
next
  case (Cons ev evs)
  let ?r = "handle env (fst ev) (snd ev) (fst w)"
  let ?w = "(fst ?r, snd w @ token_of (snd ?r))"
  from Cons.prems have p: "presented_ok env (snd ev) (snd w)" and u: "unforged env evs ?w"
    by (simp_all add: Let_def)
  from handle_step [OF Cons.prems(1-3) p, of "fst ev"]
  have "owner_exists (fst ?w)" "tokens_sound env (fst ?w) (snd ?w)" by simp_all
  from Cons.IH [OF Cons.prems(1) this u] show ?case by (simp add: Let_def)
qed

text \<open>
  Claim C6. Start from the empty database and let any sequence of requests to
  \<^verbatim>\<open>/register\<close>, \<^verbatim>\<open>/login\<close>, \<^verbatim>\<open>/upload\<close> (with its token verification), \<^verbatim>\<open>GET /files/:id\<close>
  and \<^verbatim>\<open>DELETE /files/:id\<close> run, with any failures of the storage and database calls.
  If \<^verbatim>\<open>jsonwebtoken\<close> keeps its promise and no accepted token is forged, then in the state
  reached every \<^verbatim>\<open>File\<close> document's \<^verbatim>\<open>owner\<close> is the \<^verbatim>\<open>_id\<close> of a user document: an
  upload takes the owner from a token that \<^verbatim>\<open>/register\<close> or \<^verbatim>\<open>/login\<close> signed for a
  stored user, and no handler removes a user.
\<close>

theorem owner_always_exists:
  "jwt_contract env \<Longrightarrow> unforged env evs (db_init, []) \<Longrightarrow>
   owner_exists (fst (run env evs (db_init, [])))"
  using run_invariant [of env "(db_init, [])" evs]
  by (simp add: owner_exists_def db_init_def tokens_sound_def)

lemma bucket_env0: "bucketName env0 = ''fs''"
  by (simp add: env0_def)

lemma upload_alice: "fst (upload env0 calm up_alice db_alice) = db_evening"
  by (simp add: upload_success
        [OF alice_token_nonempty verify_alice_token calm_fault a_txt_storable]
      up_alice_def)
    (simp add: db_alice_def db_evening_def a_txt_def claims_of_def alice_def bucket_env0)

lemma upload_alice_body: "token_of (snd (upload env0 calm up_alice db_alice)) = []"
  by (simp add: upload_success
        [OF alice_token_nonempty verify_alice_token calm_fault a_txt_storable]
      up_alice_def)

lemma upload_garbage: "upload env0 calm up_garbage d = (d, Sent InvalidToken)"
  by (simp add: upload_def validateToken_def falsy_def up_garbage_def verify_garbage)

lemma delete_evening: "deleteFile calm i db_evening
    = (db_evening, Sent \<lparr>status = 200, body = Message ''File deleted successfully''\<rparr>)"
  by (simp add: deleteFile_def calm_def gfs_remove_def db_evening_def)

lemma get_evening: "getFile calm i db_evening = (db_evening, Sent NotFound)"
  by (simp add: getFile_def calm_def gfs_files_findOne_def db_evening_def)

lemma login_evening: "login env0 calm ''alice@x.com'' ''pw1'' db_evening =
    (db_evening, Sent \<lparr>status = 200,
       body = MsgUserToken ''User logged in successfully!'' (alice\<lparr>files := [''a.txt'']\<rparr>)
                alice_token\<rparr>)"
  by (simp add: login_def User_findOne_def db_evening_def calm_def env0_def alice_def
      toy_compare_iff alice_token_def claims_of_def)

lemma run_day: "run env0 day (db_init, []) = (db_evening, [alice_token, alice_token])"
  by (simp add: day_def register_alice upload_alice upload_alice_body upload_garbage
      delete_evening get_evening login_evening InvalidToken_def NotFound_def Let_def)

lemma unforged_day: "unforged env0 day (db_init, [])"
  by (simp add: day_def register_alice upload_alice upload_alice_body upload_garbage
      delete_evening get_evening login_evening InvalidToken_def NotFound_def
      presented_ok_def up_alice_def up_garbage_def verify_garbage Let_def)

theorem owner_always_exists_witness:
  "jwt_contract env0 \<and> unforged env0 day (db_init, []) \<and>
   run env0 day (db_init, []) = (db_evening, [alice_token, alice_token]) \<and>
   owner_exists db_evening \<and>
   map owner (fileDocs db_evening) = [0] \<and> map uid (userDocs db_evening) = [0]"
  using owner_always_exists [OF env0_jwt_contract unforged_day]
    env0_jwt_contract unforged_day run_day
  by (simp add: db_evening_def alice_def)

end
